theory Spec2Isabelle
  imports Main "HOL-Library.Word"
begin

section \<open>JavaScript values\<close>

text \<open>
  The request body is whatever \<^verbatim>\<open>express.json()\<close> parsed: a JSON value. Numbers are
  the integer-valued ones together with the three non-finite values, so that
  \<^verbatim>\<open>Number(req.params.id)\<close> and \<^verbatim>\<open>Number.isFinite\<close> can be written down; a number
  is rendered in decimal, as JavaScript renders an integer of magnitude below \<open>10^21\<close>.
  Fractional numbers are outside the embedding. A character stands for one code unit
  of a string. The value \<^verbatim>\<open>undefined\<close> is \<open>None\<close> of \<open>json option\<close>.
\<close>

datatype number = NaN | PosInfinity | NegInfinity | Fin int

datatype json =
    JNull
  | JBool bool
  | JNum number
  | JStr string
  | JArr "json list"
  | JObj "(string \<times> json) list"

datatype error = TypeError | SharpError | DbError

fun isFinite :: "number \<Rightarrow> bool" where
  "isFinite (Fin n) = True"
| "isFinite NaN = False"
| "isFinite PosInfinity = False"
| "isFinite NegInfinity = False"

text \<open>Truthiness, as \<^verbatim>\<open>!v\<close> and \<^verbatim>\<open>v || d\<close> test it.\<close>

fun truthy :: "json \<Rightarrow> bool" where
  "truthy JNull = False"
| "truthy (JBool b) = b"
| "truthy (JNum n) = (n \<noteq> NaN \<and> n \<noteq> Fin 0)"
| "truthy (JStr s) = (s \<noteq> [])"
| "truthy (JArr xs) = True"
| "truthy (JObj kvs) = True"

text \<open>\<^verbatim>\<open>v || d\<close> and \<^verbatim>\<open>v ?? d\<close> for a property read \<open>v\<close> and a constant \<open>d\<close>.\<close>

fun or_default :: "json option \<Rightarrow> json \<Rightarrow> json" where
  "or_default None d = d"
| "or_default (Some v) d = (if truthy v then v else d)"

fun nullish_default :: "json option \<Rightarrow> json \<Rightarrow> json" where
  "nullish_default None d = d"
| "nullish_default (Some JNull) d = d"
| "nullish_default (Some v) d = v"

text \<open>
  \<^verbatim>\<open>v.k\<close> on a value that is not \<^verbatim>\<open>null\<close>, for the property names the handlers read
  (\<^verbatim>\<open>strokes texts points color width x y text fontSize\<close>): none of them is on a
  built-in prototype, so only an object's own property is found.
\<close>

fun member :: "json \<Rightarrow> string \<Rightarrow> json option" where
  "member (JObj kvs) k = map_of kvs k"
| "member v k = None"

text \<open>\<^verbatim>\<open>v?.k\<close>: the read that answers \<^verbatim>\<open>undefined\<close> on \<^verbatim>\<open>null\<close>.\<close>

definition optional_member :: "json \<Rightarrow> string \<Rightarrow> json option" where
  "optional_member v k = (if v = JNull then None else member v k)"

text \<open>\<^verbatim>\<open>v.k\<close>: the read that throws on \<^verbatim>\<open>null\<close>.\<close>

definition strict_member :: "json \<Rightarrow> string \<Rightarrow> error + json option" where
  "strict_member v k = (if v = JNull then Inl TypeError else Inr (member v k))"

text \<open>\<^verbatim>\<open>v.length\<close> on a truthy value: arrays and strings have their own.\<close>

fun length_of :: "json \<Rightarrow> json option" where
  "length_of (JArr xs) = Some (JNum (Fin (int (length xs))))"
| "length_of (JStr s) = Some (JNum (Fin (int (length s))))"
| "length_of (JObj kvs) = map_of kvs ''length''"
| "length_of v = None"

subsection \<open>Conversion to string\<close>

fun digits :: "nat \<Rightarrow> string" where
  "digits n = (if n < 10 then [''0123456789'' ! n]
     else digits (n div 10) @ [''0123456789'' ! (n mod 10)])"

declare digits.simps [simp del]

fun number_to_string :: "number \<Rightarrow> string" where
  "number_to_string NaN = ''NaN''"
| "number_to_string PosInfinity = ''Infinity''"
| "number_to_string NegInfinity = ''-Infinity''"
| "number_to_string (Fin n) = (if n < 0 then ''-'' @ digits (nat (- n)) else digits (nat n))"

text \<open>
  \<^verbatim>\<open>String(v)\<close> and \<^verbatim>\<open>${v}\<close>. An array joins its elements with a comma, \<^verbatim>\<open>null\<close>
  elements as the empty string. An object prints as \<^verbatim>\<open>[object Object]\<close>, unless the
  request gave it an own \<^verbatim>\<open>toString\<close> property: that is never a function, and the
  conversion throws.
\<close>

fun to_string :: "json \<Rightarrow> error + string"
  and join_elements :: "json list \<Rightarrow> error + string" where
  "to_string JNull = Inr ''null''"
| "to_string (JBool b) = Inr (if b then ''true'' else ''false'')"
| "to_string (JNum n) = Inr (number_to_string n)"
| "to_string (JStr s) = Inr s"
| "to_string (JArr xs) = join_elements xs"
| "to_string (JObj kvs) =
     (if map_of kvs ''toString'' = None then Inr ''[object Object]'' else Inl TypeError)"
| "join_elements [] = Inr []"
| "join_elements (x # xs) =
     (case (if x = JNull then Inr [] else to_string x) of
        Inl e \<Rightarrow> Inl e
      | Inr a \<Rightarrow>
          (if xs = [] then Inr a
           else case join_elements xs of Inl e \<Rightarrow> Inl e | Inr b \<Rightarrow> Inr (a @ '','' @ b)))"

fun to_string_opt :: "json option \<Rightarrow> error + string" where
  "to_string_opt None = Inr ''undefined''"
| "to_string_opt (Some v) = to_string v"

text \<open>\<^verbatim>\<open>parts.join(sep)\<close> on an array of strings.\<close>

fun join :: "string \<Rightarrow> string list \<Rightarrow> string" where
  "join sep [] = []"
| "join sep [x] = x"
| "join sep (x # y # ys) = x @ sep @ join sep (y # ys)"

text \<open>
  \<^verbatim>\<open>v < 2\<close>, for \<open>v\<close> the value of a \<^verbatim>\<open>length\<close> property. A string operand goes through
  the runtime's conversion of strings to numbers, the parameter \<open>to_number\<close>.
\<close>

fun number_lt_2 :: "number \<Rightarrow> bool" where
  "number_lt_2 NaN = False"
| "number_lt_2 PosInfinity = False"
| "number_lt_2 NegInfinity = True"
| "number_lt_2 (Fin n) = (n < 2)"

fun lt_2 :: "(string \<Rightarrow> number) \<Rightarrow> json option \<Rightarrow> error + bool" where
  "lt_2 to_number None = Inr False"
| "lt_2 to_number (Some JNull) = Inr True"
| "lt_2 to_number (Some (JBool b)) = Inr True"
| "lt_2 to_number (Some (JNum n)) = Inr (number_lt_2 n)"
| "lt_2 to_number (Some (JStr s)) = Inr (number_lt_2 (to_number s))"
| "lt_2 to_number (Some v) =
     (case to_string v of Inl e \<Rightarrow> Inl e | Inr s \<Rightarrow> Inr (number_lt_2 (to_number s)))"

section \<open>The overlay renderer\<close>

subsection \<open>One stroke\<close>

text \<open>
  \<^verbatim>\<open>(p, i) => (i === 0 ? `${p.x} ${p.y}` : `L ${p.x} ${p.y}`)\<close>
\<close>

definition point_command :: "json \<Rightarrow> nat \<Rightarrow> error + string" where
  "point_command p i =
     (case strict_member p ''x'' of
        Inl e \<Rightarrow> Inl e
      | Inr px \<Rightarrow>
          (case to_string_opt px of
             Inl e \<Rightarrow> Inl e
           | Inr sx \<Rightarrow>
               (case to_string_opt (member p ''y'') of
                  Inl e \<Rightarrow> Inl e
                | Inr sy \<Rightarrow> Inr ((if i = 0 then [] else ''L '') @ sx @ '' '' @ sy))))"

text \<open>\<^verbatim>\<open>points.map(...)\<close>, from index \<open>i\<close> on.\<close>

fun map_points :: "json list \<Rightarrow> nat \<Rightarrow> error + string list" where
  "map_points [] i = Inr []"
| "map_points (p # ps) i =
     (case point_command p i of
        Inl e \<Rightarrow> Inl e
      | Inr c \<Rightarrow> (case map_points ps (Suc i) of Inl e \<Rightarrow> Inl e | Inr cs \<Rightarrow> Inr (c # cs)))"

text \<open>
  \<^verbatim>\<open>"M " + stroke.points.map(...).join(" ")\<close>: only an array has a \<^verbatim>\<open>map\<close> to call.
\<close>

fun path_d :: "json \<Rightarrow> error + string" where
  "path_d (JArr ps) =
     (case map_points ps 0 of Inl e \<Rightarrow> Inl e | Inr cs \<Rightarrow> Inr (''M '' @ join '' '' cs))"
| "path_d v = Inl TypeError"

definition path_element :: "string \<Rightarrow> string \<Rightarrow> string \<Rightarrow> string" where
  \<open>path_element d color w =
     ''<path d="'' @ d @ ''" fill="none" stroke="'' @ color @ ''" stroke-width="'' @ w @
     ''" stroke-linecap="round" stroke-linejoin="round" />''\<close>

text \<open>
  The body of the loop over the strokes, from the test of \<^verbatim>\<open>points\<close> on; \<open>None\<close> is
  \<^verbatim>\<open>continue\<close>, \<open>Some el\<close> the element pushed.
\<close>

definition stroke_body :: "(string \<Rightarrow> number) \<Rightarrow> json \<Rightarrow> json option \<Rightarrow> error + string option" where
  "stroke_body to_number stroke points =
     (case points of
        None \<Rightarrow> Inr None
      | Some pts \<Rightarrow>
          if \<not> truthy pts then Inr None
          else
            (case lt_2 to_number (length_of pts) of
               Inl e \<Rightarrow> Inl e
             | Inr short \<Rightarrow>
                 if short then Inr None
                 else
                   (let color = or_default (member stroke ''color'') (JStr ''#ff0000'');
                        w = or_default (member stroke ''width'') (JNum (Fin 4))
                    in case path_d pts of
                         Inl e \<Rightarrow> Inl e
                       | Inr d \<Rightarrow>
                           (case to_string color of
                              Inl e \<Rightarrow> Inl e
                            | Inr scolor \<Rightarrow>
                                (case to_string w of
                                   Inl e \<Rightarrow> Inl e
                                 | Inr sw \<Rightarrow> Inr (Some (path_element d scolor sw)))))))"

subsection \<open>One text label\<close>

text \<open>\<^verbatim>\<open>s.replace(/c/g, r)\<close> for a pattern of one character.\<close>

definition replace_all :: "char \<Rightarrow> string \<Rightarrow> string \<Rightarrow> string" where
  "replace_all c r s = concat (map (\<lambda>x. if x = c then r else [x]) s)"

definition escape :: "string \<Rightarrow> string" where
  "escape s = replace_all CHR ''<'' ''&lt;'' (replace_all CHR ''&'' ''&amp;'' s)"

definition text_element :: "string \<Rightarrow> string \<Rightarrow> string \<Rightarrow> string \<Rightarrow> string \<Rightarrow> string" where
  \<open>text_element x y color fontSize escaped =
     ''<text x="'' @ x @ ''" y="'' @ y @ ''" fill="'' @ color @ ''" font-size="'' @ fontSize @
     ''" font-family="Arial, sans-serif">'' @ escaped @ ''</text>''\<close>

text \<open>The body of the loop over the texts, from the test of \<^verbatim>\<open>text\<close> on.\<close>

definition text_body :: "json \<Rightarrow> json option \<Rightarrow> error + string option" where
  "text_body t text =
     (case text of
        None \<Rightarrow> Inr None
      | Some txt \<Rightarrow>
          if \<not> truthy txt then Inr None
          else
            (let x = nullish_default (member t ''x'') (JNum (Fin 20));
                 y = nullish_default (member t ''y'') (JNum (Fin 20));
                 color = or_default (member t ''color'') (JStr ''#00ff00'');
                 fontSize = or_default (member t ''fontSize'') (JNum (Fin 24))
             in case to_string txt of
                  Inl e \<Rightarrow> Inl e
                | Inr s \<Rightarrow>
                    (let escaped = escape s
                     in case to_string x of
                          Inl e \<Rightarrow> Inl e
                        | Inr sx \<Rightarrow>
                            (case to_string y of
                               Inl e \<Rightarrow> Inl e
                             | Inr sy \<Rightarrow>
                                 (case to_string color of
                                    Inl e \<Rightarrow> Inl e
                                  | Inr scolor \<Rightarrow>
                                      (case to_string fontSize of
                                         Inl e \<Rightarrow> Inl e
                                       | Inr ssize \<Rightarrow>
                                           Inr (Some (text_element sx sy scolor ssize escaped))))))))"

subsection \<open>The loops\<close>

text \<open>
  \<^verbatim>\<open>for (const x of xs) { ...; svg.push(el) }\<close>: the array \<open>svg\<close> is threaded through,
  and an exception in one iteration ends the loop.
\<close>

fun push_each :: "(json \<Rightarrow> error + string option) \<Rightarrow> json list \<Rightarrow> string list \<Rightarrow> error + string list" where
  "push_each iteration [] svg = Inr svg"
| "push_each iteration (x # xs) svg =
     (case iteration x of
        Inl e \<Rightarrow> Inl e
      | Inr None \<Rightarrow> push_each iteration xs svg
      | Inr (Some el) \<Rightarrow> push_each iteration xs (svg @ [el]))"

definition svg_open :: "nat \<Rightarrow> nat \<Rightarrow> string" where
  \<open>svg_open width height =
     ''<svg width="'' @ digits width @ ''" height="'' @ digits height @ ''" viewBox="0 0 '' @
     digits width @ '' '' @ digits height @ ''" xmlns="http://www.w3.org/2000/svg">''\<close>

text \<open>\<^verbatim>\<open>req.body || {}\<close>\<close>

definition body_or_empty :: "json option \<Rightarrow> json" where
  "body_or_empty req_body = or_default req_body (JObj [])"

subsubsection \<open>The handler of \<^verbatim>\<open>/api/images/:id/annotate\<close>\<close>

text \<open>\<^verbatim>\<open>Array.isArray(v) ? v : []\<close>\<close>

fun array_or_empty :: "json option \<Rightarrow> json list" where
  "array_or_empty (Some (JArr xs)) = xs"
| "array_or_empty v = []"

definition stroke_iteration :: "(string \<Rightarrow> number) \<Rightarrow> json \<Rightarrow> error + string option" where
  "stroke_iteration to_number stroke =
     stroke_body to_number stroke (optional_member stroke ''points'')"

definition text_iteration :: "json \<Rightarrow> error + string option" where
  "text_iteration t = text_body t (optional_member t ''text'')"

text \<open>The array \<open>svg\<close> as it stands before \<^verbatim>\<open>svg.join("")\<close>.\<close>

definition render_svg :: "(string \<Rightarrow> number) \<Rightarrow> nat \<Rightarrow> nat \<Rightarrow> json option \<Rightarrow> error + string list" where
  "render_svg to_number width height req_body =
     (let body = body_or_empty req_body;
          strokes = array_or_empty (member body ''strokes'');
          texts = array_or_empty (member body ''texts'')
      in case push_each (stroke_iteration to_number) strokes [svg_open width height] of
           Inl e \<Rightarrow> Inl e
         | Inr svg \<Rightarrow>
             (case push_each text_iteration texts svg of
                Inl e \<Rightarrow> Inl e
              | Inr svg' \<Rightarrow> Inr (svg' @ [''</svg>''])))"

subsubsection \<open>The handler of \<^verbatim>\<open>/images/:id/annotate\<close>\<close>

text \<open>
  \<^verbatim>\<open>const { strokes = [], texts = [] } = req.body || {}\<close>: the default stands in for
  \<^verbatim>\<open>undefined\<close> only. \<^verbatim>\<open>for (... of v)\<close> walks an array or the characters of a string
  and throws on every other value.
\<close>

fun destructure_default :: "json option \<Rightarrow> json" where
  "destructure_default None = JArr []"
| "destructure_default (Some v) = v"

fun iterate :: "json \<Rightarrow> error + json list" where
  "iterate (JArr xs) = Inr xs"
| "iterate (JStr s) = Inr (map (\<lambda>c. JStr [c]) s)"
| "iterate v = Inl TypeError"

definition stroke_iteration_fs :: "(string \<Rightarrow> number) \<Rightarrow> json \<Rightarrow> error + string option" where
  "stroke_iteration_fs to_number stroke =
     (case strict_member stroke ''points'' of
        Inl e \<Rightarrow> Inl e
      | Inr points \<Rightarrow> stroke_body to_number stroke points)"

definition text_iteration_fs :: "json \<Rightarrow> error + string option" where
  "text_iteration_fs t =
     (case strict_member t ''text'' of Inl e \<Rightarrow> Inl e | Inr text \<Rightarrow> text_body t text)"

definition render_svgParts :: "(string \<Rightarrow> number) \<Rightarrow> nat \<Rightarrow> nat \<Rightarrow> json option \<Rightarrow> error + string list" where
  "render_svgParts to_number width height req_body =
     (let body = body_or_empty req_body;
          strokes = destructure_default (member body ''strokes'');
          texts = destructure_default (member body ''texts'')
      in case iterate strokes of
           Inl e \<Rightarrow> Inl e
         | Inr ss \<Rightarrow>
             (case push_each (stroke_iteration_fs to_number) ss [svg_open width height] of
                Inl e \<Rightarrow> Inl e
              | Inr svgParts \<Rightarrow>
                  (case iterate texts of
                     Inl e \<Rightarrow> Inl e
                   | Inr ts \<Rightarrow>
                       (case push_each text_iteration_fs ts svgParts of
                          Inl e \<Rightarrow> Inl e
                        | Inr svgParts' \<Rightarrow> Inr (svgParts' @ [''</svg>''])))))"

section \<open>The image store\<close>

type_synonym bytes = "8 word list"

text \<open>
  Modelled from the spec: the table \<^verbatim>\<open>images\<close>, whose declaration is not among the
  sources. A record has the columns the statements name; its \<^verbatim>\<open>id\<close> is assigned by
  the store on creation and never reused, which is a counter that only grows.
\<close>

record image_row =
  content_type :: string
  original_name :: "string option"
  data :: bytes
  original_image_id :: "int option"

record store =
  images :: "int \<Rightarrow> image_row option"
  auto_increment :: int

text \<open>Every id in use lies below the counter.\<close>

definition store_ok :: "store \<Rightarrow> bool" where
  "store_ok db = (\<forall>i. images db i \<noteq> None \<longrightarrow> i < auto_increment db)"

subsection \<open>What the handlers call\<close>

text \<open>
  The collaborators are parameters: the runtime's \<^verbatim>\<open>Number\<close> on strings, the three
  uses of \<^verbatim>\<open>sharp\<close> (each may reject), and whether \<^verbatim>\<open>pool.execute\<close> rejects a
  statement of each kind.
\<close>

record metadata =
  width :: "nat option"
  height :: "nat option"

record env =
  string_to_number :: "string \<Rightarrow> number"
  sharp_metadata :: "bytes \<Rightarrow> error + metadata"
  sharp_composite_png :: "bytes \<Rightarrow> string \<Rightarrow> error + bytes"
  sharp_png :: "bytes \<Rightarrow> error + bytes"
  select_rejects :: bool
  insert_rejects :: bool
  update_rejects :: bool

text \<open>\<^verbatim>\<open>SELECT ... FROM images WHERE id = ?\<close>\<close>

definition select_image :: "env \<Rightarrow> store \<Rightarrow> number \<Rightarrow> error + image_row option" where
  "select_image env db i =
     (if select_rejects env then Inl DbError
      else Inr (case i of Fin n \<Rightarrow> images db n | _ \<Rightarrow> None))"

text \<open>
  \<^verbatim>\<open>INSERT INTO images (content_type, original_name, data, original_image_id)\<close>: a
  statement that is rejected writes nothing; one that is executed answers the new id.
\<close>

definition insert_image :: "env \<Rightarrow> store \<Rightarrow> image_row \<Rightarrow> (error + int) \<times> store" where
  "insert_image env db row =
     (if insert_rejects env then (Inl DbError, db)
      else (Inr (auto_increment db),
            db\<lparr>images := (images db)(auto_increment db \<mapsto> row),
               auto_increment := auto_increment db + 1\<rparr>))"

text \<open>
  \<^verbatim>\<open>UPDATE images SET content_type = ?, data = ?, original_name = ? WHERE id = ?\<close>
\<close>

definition update_image ::
  "env \<Rightarrow> store \<Rightarrow> number \<Rightarrow> string \<Rightarrow> bytes \<Rightarrow> string option \<Rightarrow> (error + unit) \<times> store" where
  "update_image env db i ct d name =
     (if update_rejects env then (Inl DbError, db)
      else (Inr (),
            case i of
              Fin n \<Rightarrow>
                (case images db n of
                   None \<Rightarrow> db
                 | Some row \<Rightarrow>
                     db\<lparr>images := (images db)
                          (n \<mapsto> row\<lparr>content_type := ct, data := d, original_name := name\<rparr>)\<rparr>)
            | _ \<Rightarrow> db))"

section \<open>The handlers\<close>

record response =
  status :: nat
  headers :: "(string \<times> string) list"
  body :: json

definition json_response :: "nat \<Rightarrow> json \<Rightarrow> response" where
  "json_response code j = \<lparr>status = code, headers = [], body = j\<rparr>"

definition message :: "string \<Rightarrow> json" where
  "message m = JObj [(''message'', JStr m)]"

definition API :: string where
  "API = ''/api/images''"

text \<open>\<^verbatim>\<open>`${API}/${id}/raw`\<close>\<close>

definition raw_url :: "number \<Rightarrow> string" where
  "raw_url i = API @ ''/'' @ number_to_string i @ ''/raw''"

text \<open>\<^verbatim>\<open>meta.width || 1024\<close>\<close>

fun dimension_or :: "nat option \<Rightarrow> nat \<Rightarrow> nat" where
  "dimension_or None d = d"
| "dimension_or (Some n) d = (if n = 0 then d else n)"

text \<open>\<^verbatim>\<open>original.originalName || null\<close>\<close>

fun name_or_null :: "string option \<Rightarrow> string option" where
  "name_or_null None = None"
| "name_or_null (Some n) = (if n = [] then None else Some n)"

text \<open>The id column of the row a finite \<^verbatim>\<open>originalId\<close> is stored as.\<close>

fun id_column :: "number \<Rightarrow> int option" where
  "id_column (Fin n) = Some n"
| "id_column v = None"

subsection \<open>\<^verbatim>\<open>POST /api/images/:id/annotate\<close>\<close>

text \<open>
  The \<^verbatim>\<open>try\<close> block. The store is threaded through every statement, so an exception
  leaves the handler with the store as it stands at the throw.
\<close>

definition annotate_try :: "env \<Rightarrow> string \<Rightarrow> json option \<Rightarrow> store \<Rightarrow> (error + response) \<times> store" where
  "annotate_try env id_param req_body db =
     (let originalId = string_to_number env id_param
      in if \<not> isFinite originalId then (Inr (json_response 400 (message ''Invalid image id'')), db)
         else
           (case select_image env db originalId of
              Inl e \<Rightarrow> (Inl e, db)
            | Inr None \<Rightarrow> (Inr (json_response 404 (message ''Image not found'')), db)
            | Inr (Some original) \<Rightarrow>
                (case sharp_metadata env (data original) of
                   Inl e \<Rightarrow> (Inl e, db)
                 | Inr meta \<Rightarrow>
                     (let canvas_width = dimension_or (width meta) 1024;
                          canvas_height = dimension_or (height meta) 768
                      in case render_svg (string_to_number env) canvas_width canvas_height req_body of
                           Inl e \<Rightarrow> (Inl e, db)
                         | Inr svg \<Rightarrow>
                             (case sharp_composite_png env (data original) (concat svg) of
                                Inl e \<Rightarrow> (Inl e, db)
                              | Inr annotatedBuffer \<Rightarrow>
                                  (case insert_image env db
                                          \<lparr>content_type = ''image/png'',
                                           original_name = name_or_null (original_name original),
                                           data = annotatedBuffer,
                                           original_image_id = id_column originalId\<rparr> of
                                     (Inl e, db') \<Rightarrow> (Inl e, db')
                                   | (Inr newId, db') \<Rightarrow>
                                       (Inr (json_response 201
                                              (JObj [(''id'', JNum (Fin newId)),
                                                     (''url'', JStr (raw_url (Fin newId))),
                                                     (''originalImageId'', JNum originalId)])),
                                        db')))))))"

text \<open>The handler: the \<^verbatim>\<open>catch\<close> answers 500 for whatever was thrown.\<close>

definition annotate :: "env \<Rightarrow> string \<Rightarrow> json option \<Rightarrow> store \<Rightarrow> response \<times> store" where
  "annotate env id_param req_body db =
     (case annotate_try env id_param req_body db of
        (Inl e, db') \<Rightarrow> (json_response 500 (message ''Failed to annotate image''), db')
      | (Inr res, db') \<Rightarrow> (res, db'))"

subsection \<open>\<^verbatim>\<open>PUT /api/images/:id\<close>\<close>

record multer_file =
  buffer :: bytes
  originalname :: string

text \<open>\<^verbatim>\<open>req.file.originalname || "edited.png"\<close>\<close>

definition name_or_edited :: "string \<Rightarrow> string" where
  "name_or_edited n = (if n = [] then ''edited.png'' else n)"

definition replace_try :: "env \<Rightarrow> string \<Rightarrow> multer_file option \<Rightarrow> store \<Rightarrow> (error + response) \<times> store" where
  "replace_try env id_param req_file db =
     (let id' = string_to_number env id_param
      in if \<not> isFinite id' then (Inr (json_response 400 (message ''Invalid image id'')), db)
         else
           (case req_file of
              None \<Rightarrow> (Inr (json_response 400 (message ''No file uploaded'')), db)
            | Some f \<Rightarrow>
                (case select_image env db id' of
                   Inl e \<Rightarrow> (Inl e, db)
                 | Inr None \<Rightarrow> (Inr (json_response 404 (message ''Image not found'')), db)
                 | Inr (Some existing) \<Rightarrow>
                     (case sharp_png env (buffer f) of
                        Inl e \<Rightarrow> (Inl e, db)
                      | Inr pngBuffer \<Rightarrow>
                          (case update_image env db id' ''image/png'' pngBuffer
                                  (Some (name_or_edited (originalname f))) of
                             (Inl e, db') \<Rightarrow> (Inl e, db')
                           | (Inr u, db') \<Rightarrow>
                               (Inr \<lparr>status = 200,
                                     headers = [(''Cache-Control'', ''no-store'')],
                                     body = JObj [(''id'', JNum id'),
                                                  (''url'', JStr (raw_url id')),
                                                  (''updated'', JBool True)]\<rparr>,
                                db'))))))"

definition replace :: "env \<Rightarrow> string \<Rightarrow> multer_file option \<Rightarrow> store \<Rightarrow> response \<times> store" where
  "replace env id_param req_file db =
     (case replace_try env id_param req_file db of
        (Inl e, db') \<Rightarrow> (json_response 500 (message ''Failed to replace image''), db')
      | (Inr res, db') \<Rightarrow> (res, db'))"

section \<open>The vocabulary of the specification\<close>

text \<open>
  A stroke is drawn when its \<^verbatim>\<open>points\<close> are a sequence of at least 2 entries; a label
  is drawn when its \<^verbatim>\<open>text\<close> is present and not empty (for a value that is not a
  string: not falsy).
\<close>

definition has_two_points :: "json \<Rightarrow> bool" where
  "has_two_points stroke =
     (case optional_member stroke ''points'' of Some (JArr ps) \<Rightarrow> 2 \<le> length ps | _ \<Rightarrow> False)"

definition has_text :: "json \<Rightarrow> bool" where
  "has_text t = (case optional_member t ''text'' of Some txt \<Rightarrow> truthy txt | None \<Rightarrow> False)"

text \<open>The entity form of a character of a label.\<close>

definition entity :: "char \<Rightarrow> string" where
  "entity c = (if c = CHR ''&'' then ''&amp;'' else if c = CHR ''<'' then ''&lt;'' else [c])"


text \<open>A point \<^verbatim>\<open>{x, y}\<close> with numbers for its coordinates.\<close>

fun numeric_point :: "json \<Rightarrow> bool" where
  "numeric_point (JObj kvs) =
     (case (map_of kvs ''x'', map_of kvs ''y'') of
        (Some (JNum a), Some (JNum b)) \<Rightarrow> True
      | _ \<Rightarrow> False)"
| "numeric_point v = False"

text \<open>A property that is absent or holds a falsy value.\<close>

definition falsy :: "json option \<Rightarrow> bool" where
  "falsy v = (case v of None \<Rightarrow> True | Some j \<Rightarrow> \<not> truthy j)"

text \<open>The elements of an overlay, told apart by the tag they open with.\<close>

definition is_path_element :: "string \<Rightarrow> bool" where
  "is_path_element el = (take 6 el = ''<path '')"

definition is_text_element :: "string \<Rightarrow> bool" where
  "is_text_element el = (take 6 el = ''<text '')"

text \<open>
  A request of the shape the specification gives: a value that prints without a
  conversion that can throw is absent or not an array or object; a stroke has no
  points, or points \<^verbatim>\<open>{x, y}\<close> with numbers; and the other fields of a stroke and of a
  label are such values.
\<close>

fun primitive :: "json \<Rightarrow> bool" where
  "primitive (JArr xs) = False"
| "primitive (JObj kvs) = False"
| "primitive v = True"

definition printable :: "json option \<Rightarrow> bool" where
  "printable v = (case v of None \<Rightarrow> True | Some j \<Rightarrow> primitive j)"

definition well_formed_stroke :: "json \<Rightarrow> bool" where
  "well_formed_stroke stroke =
     ((case optional_member stroke ''points'' of
         None \<Rightarrow> True
       | Some JNull \<Rightarrow> True
       | Some (JArr ps) \<Rightarrow> list_all numeric_point ps
       | Some v \<Rightarrow> False) \<and>
      printable (member stroke ''color'') \<and> printable (member stroke ''width''))"

definition well_formed_label :: "json \<Rightarrow> bool" where
  "well_formed_label t =
     (printable (optional_member t ''text'') \<and> printable (member t ''x'') \<and>
      printable (member t ''y'') \<and> printable (member t ''color'') \<and>
      printable (member t ''fontSize''))"

subsection \<open>Example requests\<close>

definition point :: "int \<Rightarrow> int \<Rightarrow> json" where
  "point a b = JObj [(''x'', JNum (Fin a)), (''y'', JNum (Fin b))]"

definition stroke_A :: json where
  "stroke_A = JObj [(''points'', JArr [point 0 0, point 10 10])]"

definition stroke_B :: json where
  "stroke_B = JObj [(''points'', JArr [point 1 2, point 3 4, point 5 6]),
                    (''color'', JStr ''blue''), (''width'', JNum (Fin 2))]"

definition stroke_short :: json where
  "stroke_short = JObj [(''points'', JArr [point 5 5])]"

definition label_T :: json where
  "label_T = JObj [(''text'', JStr ''T''), (''x'', JNum (Fin 0))]"

definition label_empty :: json where
  "label_empty = JObj [(''text'', JStr [])]"

definition request_ABT :: json where
  "request_ABT = JObj [(''strokes'', JArr [stroke_A, stroke_short, stroke_B]),
                       (''texts'', JArr [label_empty, label_T])]"

definition label_escaped :: json where
  "label_escaped = JObj [(''text'', JStr ''A&B<C'')]"

definition stroke_width0 :: json where
  "stroke_width0 = JObj [(''points'', JArr [point 0 0, point 1 1]), (''width'', JNum (Fin 0))]"

definition label_zero :: json where
  "label_zero = JObj [(''text'', JStr ''hi''), (''x'', JNum (Fin 0)), (''y'', JNull),
                      (''fontSize'', JNum (Fin 0))]"

definition label_text0 :: json where
  "label_text0 = JObj [(''text'', JNum (Fin 0))]"

definition request_bad_points :: json where
  "request_bad_points = JObj [(''strokes'', JArr [JObj [(''points'', JStr ''ab'')]])]"

subsection \<open>An example store and example collaborators\<close>

text \<open>
  A runtime that reads the two ids of the examples and takes every other string for
  \<^verbatim>\<open>NaN\<close>, a codec that answers fixed metadata and marks the bytes it writes, and a
  store that accepts every statement.
\<close>

definition example_number :: "string \<Rightarrow> number" where
  "example_number s = (if s = ''7'' then Fin 7 else if s = ''9999'' then Fin 9999 else NaN)"

definition example_source :: image_row where
  "example_source = \<lparr>content_type = ''image/png'', original_name = Some ''scan.png'',
                      data = [1, 2, 3], original_image_id = None\<rparr>"

definition example_db :: store where
  "example_db = \<lparr>images = Map.empty(7 \<mapsto> example_source), auto_increment = 8\<rparr>"

definition example_env :: env where
  "example_env =
     \<lparr>string_to_number = example_number,
      sharp_metadata = (\<lambda>b. Inr \<lparr>width = Some 100, height = Some 50\<rparr>),
      sharp_composite_png = (\<lambda>b svg. Inr (b @ [4])),
      sharp_png = (\<lambda>b. Inr (0 # b)),
      select_rejects = False, insert_rejects = False, update_rejects = False\<rparr>"

definition example_file :: multer_file where
  "example_file = \<lparr>buffer = [9, 9], originalname = ''new.jpg''\<rparr>"

definition example_created :: response where
  "example_created =
     json_response 201
       (JObj [(''id'', JNum (Fin 8)), (''url'', JStr ''/api/images/8/raw''),
              (''originalImageId'', JNum (Fin 7))])"

definition example_db_annotated :: store where
  "example_db_annotated =
     example_db\<lparr>images := (images example_db)
                   (8 \<mapsto> \<lparr>content_type = ''image/png'', original_name = Some ''scan.png'',
                           data = [1, 2, 3, 4], original_image_id = Some 7\<rparr>),
                auto_increment := 9\<rparr>"

definition example_updated :: response where
  "example_updated =
     \<lparr>status = 200, headers = [(''Cache-Control'', ''no-store'')],
      body = JObj [(''id'', JNum (Fin 7)), (''url'', JStr ''/api/images/7/raw''),
                   (''updated'', JBool True)]\<rparr>"

definition example_db_replaced :: store where
  "example_db_replaced =
     example_db\<lparr>images := (images example_db)
                   (7 \<mapsto> \<lparr>content_type = ''image/png'', original_name = Some ''new.jpg'',
                           data = [0, 9, 9], original_image_id = None\<rparr>)\<rparr>"




section \<open>Properties of the renderer\<close>

subsection \<open>The loops\<close>

lemma push_each_elements:
  "push_each f xs svg = Inr out \<Longrightarrow>
   \<exists>els. out = svg @ els \<and>
     list_all2 (\<lambda>x el. f x = Inr (Some el)) (filter (\<lambda>x. f x \<noteq> Inr None) xs) els"
proof (induction xs arbitrary: svg)
  case Nil
  then show ?case by simp
next
  case (Cons x xs)
  show ?case
  proof (cases "f x")
    case (Inl e)
    with Cons.prems show ?thesis by simp
  next
    case (Inr r)
    show ?thesis
    proof (cases r)
      case None
      with Inr Cons.prems have "push_each f xs svg = Inr out" by simp
      from Cons.IH [OF this] Inr None show ?thesis by simp
    next
      case (Some el)
      with Inr Cons.prems have "push_each f xs (svg @ [el]) = Inr out" by simp
      from Cons.IH [OF this] obtain els where
        "out = (svg @ [el]) @ els"
        "list_all2 (\<lambda>x el. f x = Inr (Some el)) (filter (\<lambda>x. f x \<noteq> Inr None) xs) els"
        by blast
      with Inr Some show ?thesis by (intro exI [of _ "el # els"]) simp
    qed
  qed
qed

lemma push_each_no_throw:
  "push_each f xs svg = Inr out \<Longrightarrow> x \<in> set xs \<Longrightarrow> \<exists>r. f x = Inr r"
  by (induction xs arbitrary: svg) (auto split: sum.splits option.splits)

lemma filter_kept:
  assumes "\<And>x. x \<in> set xs \<Longrightarrow> \<exists>r. f x = Inr r \<and> (r \<noteq> None) = P x"
  shows "filter (\<lambda>x. f x \<noteq> Inr None) xs = filter P xs"
proof (rule filter_cong [OF refl])
  fix x assume "x \<in> set xs"
  from assms [OF this] show "(f x \<noteq> Inr None) = P x" by auto
qed

lemma push_each_filter:
  assumes run: "push_each f xs svg = Inr out"
    and kept: "\<And>x r. f x = Inr r \<Longrightarrow> (r \<noteq> None) = P x"
  shows "\<exists>els. out = svg @ els \<and> list_all2 (\<lambda>x el. f x = Inr (Some el)) (filter P xs) els"
proof -
  have "filter (\<lambda>x. f x \<noteq> Inr None) xs = filter P xs"
  proof (rule filter_kept)
    fix x assume "x \<in> set xs"
    from push_each_no_throw [OF run this] obtain r where "f x = Inr r" ..
    with kept show "\<exists>r. f x = Inr r \<and> (r \<noteq> None) = P x" by blast
  qed
  with push_each_elements [OF run] show ?thesis by simp
qed

subsection \<open>Which entries are drawn\<close>

lemma path_d_array: "path_d pts = Inr d \<Longrightarrow> \<exists>ps. pts = JArr ps"
  by (cases pts) simp_all

lemma stroke_body_kept:
  "stroke_body to_number stroke points = Inr r \<Longrightarrow>
   (r \<noteq> None) = (case points of Some (JArr ps) \<Rightarrow> 2 \<le> length ps | _ \<Rightarrow> False)"
  by (auto simp: stroke_body_def Let_def
      split: option.splits sum.splits if_splits json.splits dest: path_d_array)

lemma text_body_kept:
  "text_body t text = Inr r \<Longrightarrow>
   (r \<noteq> None) = (case text of Some txt \<Rightarrow> truthy txt | None \<Rightarrow> False)"
  by (auto simp: text_body_def Let_def split: option.splits sum.splits if_splits)

lemma stroke_iteration_kept:
  "stroke_iteration to_number s = Inr r \<Longrightarrow> (r \<noteq> None) = has_two_points s"
  unfolding stroke_iteration_def has_two_points_def by (rule stroke_body_kept)

lemma text_iteration_kept:
  "text_iteration t = Inr r \<Longrightarrow> (r \<noteq> None) = has_text t"
  unfolding text_iteration_def has_text_def by (rule text_body_kept)

lemma text_iteration_body:
  assumes "text_iteration t = Inr r \<or> text_iteration_fs t = Inr r"
  shows "text_body t (member t ''text'') = Inr r"
  using assms
  by (cases "t = JNull")
     (auto simp: text_iteration_def text_iteration_fs_def optional_member_def strict_member_def
        text_body_def)

lemma stroke_iteration_body:
  assumes "stroke_iteration to_number s = Inr r \<or> stroke_iteration_fs to_number s = Inr r"
  shows "stroke_body to_number s (member s ''points'') = Inr r"
  using assms
  by (cases "s = JNull")
     (auto simp: stroke_iteration_def stroke_iteration_fs_def optional_member_def strict_member_def
        stroke_body_def)

subsection \<open>The shape of an element\<close>

lemma text_body_element:
  assumes "text_body t text = Inr (Some el)"
  shows "\<exists>txt s sx sy scolor ssize.
     text = Some txt \<and> truthy txt \<and> to_string txt = Inr s \<and>
     to_string (nullish_default (member t ''x'') (JNum (Fin 20))) = Inr sx \<and>
     to_string (nullish_default (member t ''y'') (JNum (Fin 20))) = Inr sy \<and>
     to_string (or_default (member t ''color'') (JStr ''#00ff00'')) = Inr scolor \<and>
     to_string (or_default (member t ''fontSize'') (JNum (Fin 24))) = Inr ssize \<and>
     el = text_element sx sy scolor ssize (escape s)"
  using assms
  by (auto simp: text_body_def Let_def split: option.splits sum.splits if_splits)

lemma stroke_body_element:
  assumes "stroke_body to_number stroke points = Inr (Some el)"
  shows "\<exists>ps cs scolor sw.
     points = Some (JArr ps) \<and> 2 \<le> length ps \<and> map_points ps 0 = Inr cs \<and>
     to_string (or_default (member stroke ''color'') (JStr ''#ff0000'')) = Inr scolor \<and>
     to_string (or_default (member stroke ''width'') (JNum (Fin 4))) = Inr sw \<and>
     el = path_element (''M '' @ join '' '' cs) scolor sw"
proof -
  from stroke_body_kept [OF assms] obtain ps where ps: "points = Some (JArr ps)" "2 \<le> length ps"
    by (auto split: option.splits json.splits)
  with assms show ?thesis
    by (auto simp: stroke_body_def Let_def split: sum.splits if_splits)
qed

lemma replace_all_append:
  "replace_all c r (a @ b) = replace_all c r a @ replace_all c r b"
  by (simp add: replace_all_def)

lemma escape_entities: "escape s = concat (map entity s)"
  by (induction s) (simp_all add: escape_def replace_all_def entity_def)

subsection \<open>Requests whose fields are not arrays\<close>

text \<open>
  C1: a request whose \<^verbatim>\<open>strokes\<close> field is not an array is to be rendered as one with
  no strokes. The handler of \<^verbatim>\<open>/api/images/:id/annotate\<close> does so: on
  \<^verbatim>\<open>{"strokes": null}\<close> its overlay is the empty one. The handler of
  \<^verbatim>\<open>/images/:id/annotate\<close> does not: its loop over \<^verbatim>\<open>null\<close> throws, and no overlay
  is produced. The same holds of a \<^verbatim>\<open>texts\<close> field that is a number.
\<close>

theorem strokes_null_throws_in_images_handler:
  "render_svgParts to_number w h (Some (JObj [(''strokes'', JNull)])) = Inl TypeError \<and>
   render_svg to_number w h (Some (JObj [(''strokes'', JNull)])) = Inr [svg_open w h, ''</svg>''] \<and>
   render_svgParts to_number w h (Some (JObj [(''texts'', JNum (Fin 5))])) = Inl TypeError \<and>
   render_svg to_number w h (Some (JObj [(''texts'', JNum (Fin 5))])) = Inr [svg_open w h, ''</svg>'']"
  by (simp add: render_svgParts_def render_svg_def body_or_empty_def)

subsection \<open>The order of the elements\<close>


lemma request_ABT_svg:
  \<open>render_svg example_number 100 50 (Some request_ABT) = Inr
    [''<svg width="100" height="50" viewBox="0 0 100 50" xmlns="http://www.w3.org/2000/svg">'',
     ''<path d="M 0 0 L 10 10" fill="none" stroke="#ff0000" stroke-width="4" stroke-linecap="round" stroke-linejoin="round" />'',
     ''<path d="M 1 2 L 3 4 L 5 6" fill="none" stroke="blue" stroke-width="2" stroke-linecap="round" stroke-linejoin="round" />'',
     ''<text x="0" y="20" fill="#00ff00" font-size="24" font-family="Arial, sans-serif">T</text>'',
     ''</svg>'']\<close>
  by code_simp


subsection \<open>Escaping\<close>

text \<open>
  C6: the content of a text element is the label's text with every \<^verbatim>\<open>&\<close> replaced by
  \<^verbatim>\<open>&amp;\<close> and every \<^verbatim>\<open><\<close> by \<^verbatim>\<open>&lt;\<close>, and no other character altered, in both
  handlers; so does \<^verbatim>\<open>A&B<C\<close> become \<^verbatim>\<open>A&amp;B&lt;C\<close>.
\<close>

theorem text_content_escaped:
  assumes "text_iteration t = Inr (Some el) \<or> text_iteration_fs t = Inr (Some el)"
  shows \<open>\<exists>txt s x y color fontSize.
     member t ''text'' = Some txt \<and> to_string txt = Inr s \<and>
     escape s = concat (map entity s) \<and>
     el = ''<text x="'' @ x @ ''" y="'' @ y @ ''" fill="'' @ color @ ''" font-size="'' @ fontSize @
          ''" font-family="Arial, sans-serif">'' @ concat (map entity s) @ ''</text>''\<close>
proof -
  from text_iteration_body [OF assms] have "text_body t (member t ''text'') = Inr (Some el)" .
  from text_body_element [OF this] show ?thesis
    unfolding text_element_def escape_entities by blast
qed

theorem text_content_escaped_witness:
  \<open>(text_iteration label_escaped =
      Inr (Some ''<text x="20" y="20" fill="#00ff00" font-size="24" font-family="Arial, sans-serif">A&amp;B&lt;C</text>'') \<or>
    text_iteration_fs label_escaped =
      Inr (Some ''<text x="20" y="20" fill="#00ff00" font-size="24" font-family="Arial, sans-serif">A&amp;B&lt;C</text>'')) \<and>
   (\<exists>txt s x y color fontSize.
     member label_escaped ''text'' = Some txt \<and> to_string txt = Inr s \<and>
     escape s = concat (map entity s) \<and>
     ''<text x="20" y="20" fill="#00ff00" font-size="24" font-family="Arial, sans-serif">A&amp;B&lt;C</text>'' =
       ''<text x="'' @ x @ ''" y="'' @ y @ ''" fill="'' @ color @ ''" font-size="'' @ fontSize @
       ''" font-family="Arial, sans-serif">'' @ concat (map entity s) @ ''</text>'')\<close>
proof -
  have h: \<open>text_iteration label_escaped =
      Inr (Some ''<text x="20" y="20" fill="#00ff00" font-size="24" font-family="Arial, sans-serif">A&amp;B&lt;C</text>'')\<close>
    by code_simp
  from h text_content_escaped [OF disjI1, OF h] show ?thesis by blast
qed

subsection \<open>The count of the elements\<close>

lemma render_svg_loops:
  assumes "render_svg to_number w h req_body = Inr svg"
  shows "\<exists>svg1 svg2.
     push_each (stroke_iteration to_number)
       (array_or_empty (member (body_or_empty req_body) ''strokes'')) [svg_open w h] = Inr svg1 \<and>
     push_each text_iteration
       (array_or_empty (member (body_or_empty req_body) ''texts'')) svg1 = Inr svg2 \<and>
     svg = svg2 @ [''</svg>'']"
  using assms by (auto simp: render_svg_def Let_def split: sum.splits)

lemma path_element_kind:
  "is_path_element (path_element d color w)" "\<not> is_text_element (path_element d color w)"
  by (simp_all add: is_path_element_def is_text_element_def path_element_def)

lemma text_element_kind:
  "is_text_element (text_element x y color fs e)" "\<not> is_path_element (text_element x y color fs e)"
  by (simp_all add: is_path_element_def is_text_element_def text_element_def)

lemma svg_open_kind:
  "\<not> is_path_element (svg_open w h)" "\<not> is_text_element (svg_open w h)"
  by (simp_all add: is_path_element_def is_text_element_def svg_open_def)

lemma stroke_iteration_kind:
  assumes "stroke_iteration to_number s = Inr (Some el)"
  shows "is_path_element el \<and> \<not> is_text_element el"
proof -
  from stroke_body_element [OF stroke_iteration_body [OF disjI1, OF assms]]
  obtain d c w where "el = path_element d c w" by blast
  then show ?thesis by (simp add: path_element_kind)
qed

lemma text_iteration_kind:
  assumes "text_iteration t = Inr (Some el)"
  shows "is_text_element el \<and> \<not> is_path_element el"
proof -
  from text_body_element [OF text_iteration_body [OF disjI1, OF assms]]
  obtain x y c f e where "el = text_element x y c f e" by blast
  then show ?thesis by (simp add: text_element_kind)
qed

lemma filter_all2:
  assumes "list_all2 R xs els" "\<And>x el. R x el \<Longrightarrow> P el \<and> \<not> Q el"
  shows "filter P els = els \<and> filter Q els = [] \<and> length els = length xs"
  using assms(1)
proof (induction rule: list_all2_induct)
  case Nil
  show ?case by simp
next
  case (Cons x xs el els)
  with assms(2) [OF Cons.hyps(1)] show ?case by simp
qed

text \<open>
  The overlay of the handler of \<^verbatim>\<open>/api/images/:id/annotate\<close> has as many path elements
  as the request has strokes with at least 2 points, and as many text elements as it
  has labels with text.
\<close>

lemma overlay_counts:
  assumes "render_svg to_number w h req_body = Inr svg"
  shows "length (filter is_path_element svg) =
           length (filter has_two_points (array_or_empty (member (body_or_empty req_body) ''strokes''))) \<and>
         length (filter is_text_element svg) =
           length (filter has_text (array_or_empty (member (body_or_empty req_body) ''texts'')))"
proof -
  let ?strokes = "array_or_empty (member (body_or_empty req_body) ''strokes'')"
  let ?texts = "array_or_empty (member (body_or_empty req_body) ''texts'')"
  from render_svg_loops [OF assms] obtain svg1 svg2 where
    s1: "push_each (stroke_iteration to_number) ?strokes [svg_open w h] = Inr svg1" and
    s2: "push_each text_iteration ?texts svg1 = Inr svg2" and
    s3: "svg = svg2 @ [''</svg>'']"
    by blast
  have "\<exists>els. svg1 = [svg_open w h] @ els \<and>
      list_all2 (\<lambda>stroke el. stroke_iteration to_number stroke = Inr (Some el))
        (filter has_two_points ?strokes) els"
    by (rule push_each_filter [OF s1]) (rule stroke_iteration_kept)
  then obtain paths where
    p: "svg1 = [svg_open w h] @ paths"
       "list_all2 (\<lambda>stroke el. stroke_iteration to_number stroke = Inr (Some el))
          (filter has_two_points ?strokes) paths"
    by blast
  have "\<exists>els. svg2 = svg1 @ els \<and>
      list_all2 (\<lambda>t el. text_iteration t = Inr (Some el)) (filter has_text ?texts) els"
    by (rule push_each_filter [OF s2]) (rule text_iteration_kept)
  then obtain labels where
    l: "svg2 = svg1 @ labels"
       "list_all2 (\<lambda>t el. text_iteration t = Inr (Some el)) (filter has_text ?texts) labels"
    by blast
  from filter_all2 [OF p(2), of is_path_element is_text_element] stroke_iteration_kind
  have fp: "filter is_path_element paths = paths" "filter is_text_element paths = []"
    "length paths = length (filter has_two_points ?strokes)"
    by blast+
  from filter_all2 [OF l(2), of is_text_element is_path_element] text_iteration_kind
  have fl: "filter is_text_element labels = labels" "filter is_path_element labels = []"
    "length labels = length (filter has_text ?texts)"
    by blast+
  have close: "\<not> is_path_element ''</svg>''" "\<not> is_text_element ''</svg>''"
    by (simp_all add: is_path_element_def is_text_element_def)
  from s3 p(1) l(1) fp fl close svg_open_kind [of w h] show ?thesis by simp
qed

subsection \<open>Requests the renderer accepts\<close>

lemma primitive_prints: "primitive v \<Longrightarrow> \<exists>s. to_string v = Inr s"
  by (cases v) simp_all

lemma or_default_prints:
  "printable v \<Longrightarrow> primitive d \<Longrightarrow> \<exists>s. to_string (or_default v d) = Inr s"
  by (cases v) (auto simp: printable_def intro: primitive_prints)

lemma nullish_default_prints:
  "printable v \<Longrightarrow> primitive d \<Longrightarrow> \<exists>s. to_string (nullish_default v d) = Inr s"
  by (cases "(v, d)" rule: nullish_default.cases) (auto simp: printable_def intro: primitive_prints)

lemma numeric_point_command: "numeric_point p \<Longrightarrow> \<exists>c. point_command p i = Inr c"
  by (cases p) (auto simp: point_command_def strict_member_def split: option.splits json.splits)

lemma numeric_map_points: "list_all numeric_point ps \<Longrightarrow> \<exists>cs. map_points ps i = Inr cs"
proof (induction ps arbitrary: i)
  case Nil
  show ?case by simp
next
  case (Cons p ps)
  then obtain c cs where "point_command p i = Inr c" "map_points ps (Suc i) = Inr cs"
    using numeric_point_command [of p i] by fastforce
  then show ?case by simp
qed

lemma well_formed_stroke_returns:
  assumes "well_formed_stroke s"
  shows "\<exists>r. stroke_iteration to_number s = Inr r"
proof (cases "optional_member s ''points''")
  case None
  then show ?thesis by (simp add: stroke_iteration_def stroke_body_def)
next
  case (Some pts)
  with assms consider "pts = JNull" | ps where "pts = JArr ps" "list_all numeric_point ps"
    by (auto simp: well_formed_stroke_def split: json.splits)
  then show ?thesis
  proof cases
    case 1
    with Some show ?thesis by (simp add: stroke_iteration_def stroke_body_def)
  next
    case 2
    from numeric_map_points [OF 2(2)] obtain cs where cs: "map_points ps 0 = Inr cs" ..
    from assms obtain sc sw where
      "to_string (or_default (member s ''color'') (JStr ''#ff0000'')) = Inr sc"
      "to_string (or_default (member s ''width'') (JNum (Fin 4))) = Inr sw"
      using or_default_prints [of "member s ''color''" "JStr ''#ff0000''"]
        or_default_prints [of "member s ''width''" "JNum (Fin 4)"]
      by (auto simp: well_formed_stroke_def)
    with Some 2(1) cs show ?thesis
      by (simp add: stroke_iteration_def stroke_body_def Let_def)
  qed
qed

lemma well_formed_label_returns:
  assumes "well_formed_label t"
  shows "\<exists>r. text_iteration t = Inr r"
proof (cases "optional_member t ''text''")
  case None
  then show ?thesis by (simp add: text_iteration_def text_body_def)
next
  case (Some tv)
  with assms have "primitive tv" by (simp add: well_formed_label_def printable_def)
  from primitive_prints [OF this] obtain s where s: "to_string tv = Inr s" ..
  from assms obtain sx sy sc sf where
    "to_string (nullish_default (member t ''x'') (JNum (Fin 20))) = Inr sx"
    "to_string (nullish_default (member t ''y'') (JNum (Fin 20))) = Inr sy"
    "to_string (or_default (member t ''color'') (JStr ''#00ff00'')) = Inr sc"
    "to_string (or_default (member t ''fontSize'') (JNum (Fin 24))) = Inr sf"
    using nullish_default_prints [of "member t ''x''" "JNum (Fin 20)"]
      nullish_default_prints [of "member t ''y''" "JNum (Fin 20)"]
      or_default_prints [of "member t ''color''" "JStr ''#00ff00''"]
      or_default_prints [of "member t ''fontSize''" "JNum (Fin 24)"]
    by (auto simp: well_formed_label_def)
  with Some s show ?thesis
    by (simp add: text_iteration_def text_body_def Let_def)
qed

lemma push_each_returns:
  "(\<And>x. x \<in> set xs \<Longrightarrow> \<exists>r. f x = Inr r) \<Longrightarrow> \<exists>out. push_each f xs svg = Inr out"
proof (induction xs arbitrary: svg)
  case Nil
  show ?case by simp
next
  case (Cons x xs)
  from Cons.prems [of x] obtain r where r: "f x = Inr r" by auto
  from Cons.IH Cons.prems have "\<exists>out. push_each f xs svg' = Inr out" for svg'
    by simp
  with r show ?case by (cases r) simp_all
qed

text \<open>On a request of the shape the specification gives, the renderer returns an overlay.\<close>

lemma render_svg_returns:
  assumes "list_all well_formed_stroke (array_or_empty (member (body_or_empty req_body) ''strokes''))"
    and "list_all well_formed_label (array_or_empty (member (body_or_empty req_body) ''texts''))"
  shows "\<exists>svg. render_svg to_number w h req_body = Inr svg"
proof -
  let ?strokes = "array_or_empty (member (body_or_empty req_body) ''strokes'')"
  let ?texts = "array_or_empty (member (body_or_empty req_body) ''texts'')"
  from assms(1) have "\<exists>r. stroke_iteration to_number s = Inr r" if "s \<in> set ?strokes" for s
    using that well_formed_stroke_returns by (auto simp: list_all_iff)
  from push_each_returns [of ?strokes "stroke_iteration to_number", OF this]
  obtain svg1 where s1: "push_each (stroke_iteration to_number) ?strokes [svg_open w h] = Inr svg1"
    by blast
  from assms(2) have "\<exists>r. text_iteration t = Inr r" if "t \<in> set ?texts" for t
    using that well_formed_label_returns by (auto simp: list_all_iff)
  from push_each_returns [of ?texts text_iteration, OF this]
  obtain svg2 where s2: "push_each text_iteration ?texts svg1 = Inr svg2"
    by blast
  from s1 s2 show ?thesis by (simp add: render_svg_def Let_def)
qed

text \<open>
  It does not return on every request: points that are no array, a point that is
  \<^verbatim>\<open>null\<close>, or a text that cannot be converted to a string make it throw.
\<close>

lemma renderer_throws:
  "stroke_iteration to_number (JObj [(''points'', JStr ''ab'')]) = Inl TypeError"
  "stroke_iteration to_number (JObj [(''points'', JArr [JNull, JNull])]) = Inl TypeError"
  "text_iteration (JObj [(''text'', JObj [(''toString'', JNull)])]) = Inl TypeError"
  by (simp_all add: stroke_iteration_def text_iteration_def optional_member_def stroke_body_def
      text_body_def point_command_def strict_member_def)

subsection \<open>The path of a stroke\<close>












subsection \<open>Defaults\<close>

text \<open>
  C10: in both handlers the defaults of a stroke's width and color and of a label's
  color and font size stand in for every falsy value, not only for an absent one: a
  width 0 is drawn as 4, a font size 0 as 24, and a label whose text is falsy (the
  number 0, say) is skipped. The defaults of a label's coordinates stand in for
  \<^verbatim>\<open>null\<close> and for an absent value only: a coordinate 0 stays 0, and only a
  missing one becomes 20; every other value is drawn as it converts to a string.
\<close>

theorem falsy_defaults:
  "((stroke_iteration to_number stroke = Inr (Some el) \<or>
     stroke_iteration_fs to_number stroke = Inr (Some el)) \<longrightarrow>
      (falsy (member stroke ''width'') \<longrightarrow> (\<exists>d color. el = path_element d color ''4'')) \<and>
      (falsy (member stroke ''color'') \<longrightarrow> (\<exists>d w. el = path_element d ''#ff0000'' w))) \<and>
   ((text_iteration t = Inr (Some el') \<or> text_iteration_fs t = Inr (Some el')) \<longrightarrow>
      (falsy (member t ''color'') \<longrightarrow> (\<exists>x y size e. el' = text_element x y ''#00ff00'' size e)) \<and>
      (falsy (member t ''fontSize'') \<longrightarrow> (\<exists>x y color e. el' = text_element x y color ''24'' e)) \<and>
      (member t ''x'' = Some (JNum (Fin 0)) \<longrightarrow> (\<exists>y color size e. el' = text_element ''0'' y color size e)) \<and>
      (member t ''y'' = Some (JNum (Fin 0)) \<longrightarrow> (\<exists>x color size e. el' = text_element x ''0'' color size e)) \<and>
      (member t ''x'' = None \<or> member t ''x'' = Some JNull \<longrightarrow>
         (\<exists>y color size e. el' = text_element ''20'' y color size e)) \<and>
      (member t ''y'' = None \<or> member t ''y'' = Some JNull \<longrightarrow>
         (\<exists>x color size e. el' = text_element x ''20'' color size e)) \<and>
      (\<forall>v. member t ''x'' = Some v \<and> v \<noteq> JNull \<longrightarrow>
         (\<exists>sx y color size e. to_string v = Inr sx \<and> el' = text_element sx y color size e)) \<and>
      (\<forall>v. member t ''y'' = Some v \<and> v \<noteq> JNull \<longrightarrow>
         (\<exists>sy x color size e. to_string v = Inr sy \<and> el' = text_element x sy color size e))) \<and>
   (falsy (member t' ''text'') \<longrightarrow>
      text_iteration t' = Inr None \<and> (t' \<noteq> JNull \<longrightarrow> text_iteration_fs t' = Inr None))"
proof (intro conjI impI allI)
  assume "stroke_iteration to_number stroke = Inr (Some el) \<or>
     stroke_iteration_fs to_number stroke = Inr (Some el)"
  from stroke_body_element [OF stroke_iteration_body [OF this]] obtain d scolor sw where
    el: "to_string (or_default (member stroke ''color'') (JStr ''#ff0000'')) = Inr scolor"
        "to_string (or_default (member stroke ''width'') (JNum (Fin 4))) = Inr sw"
        "el = path_element d scolor sw"
    by blast
  {
    assume "falsy (member stroke ''width'')"
    with el(2) have "sw = ''4''"
      by (auto simp: falsy_def digits.simps split: option.splits)
    with el(3) show "\<exists>d color. el = path_element d color ''4''" by blast
  }
  {
    assume "falsy (member stroke ''color'')"
    with el(1) have "scolor = ''#ff0000''"
      by (auto simp: falsy_def split: option.splits)
    with el(3) show "\<exists>d w. el = path_element d ''#ff0000'' w" by blast
  }
next
  assume "text_iteration t = Inr (Some el') \<or> text_iteration_fs t = Inr (Some el')"
  from text_body_element [OF text_iteration_body [OF this]] obtain sx sy scolor ssize e where
    el: "to_string (nullish_default (member t ''x'') (JNum (Fin 20))) = Inr sx"
        "to_string (nullish_default (member t ''y'') (JNum (Fin 20))) = Inr sy"
        "to_string (or_default (member t ''color'') (JStr ''#00ff00'')) = Inr scolor"
        "to_string (or_default (member t ''fontSize'') (JNum (Fin 24))) = Inr ssize"
        "el' = text_element sx sy scolor ssize e"
    by blast
  {
    assume "falsy (member t ''color'')"
    with el(3) have "scolor = ''#00ff00''"
      by (auto simp: falsy_def split: option.splits)
    with el(5) show "\<exists>x y size e. el' = text_element x y ''#00ff00'' size e" by blast
  }
  {
    assume "falsy (member t ''fontSize'')"
    with el(4) have "ssize = ''24''"
      by (auto simp: falsy_def digits.simps split: option.splits)
    with el(5) show "\<exists>x y color e. el' = text_element x y color ''24'' e" by blast
  }
  {
    assume "member t ''x'' = Some (JNum (Fin 0))"
    with el(1) have "sx = ''0''" by (simp add: digits.simps)
    with el(5) show "\<exists>y color size e. el' = text_element ''0'' y color size e" by blast
  }
  {
    assume "member t ''y'' = Some (JNum (Fin 0))"
    with el(2) have "sy = ''0''" by (simp add: digits.simps)
    with el(5) show "\<exists>x color size e. el' = text_element x ''0'' color size e" by blast
  }
  {
    assume "member t ''x'' = None \<or> member t ''x'' = Some JNull"
    with el(1) have "sx = ''20''" by (auto simp: digits.simps)
    with el(5) show "\<exists>y color size e. el' = text_element ''20'' y color size e" by blast
  }
  {
    assume "member t ''y'' = None \<or> member t ''y'' = Some JNull"
    with el(2) have "sy = ''20''" by (auto simp: digits.simps)
    with el(5) show "\<exists>x color size e. el' = text_element x ''20'' color size e" by blast
  }
  {
    fix v assume "member t ''x'' = Some v \<and> v \<noteq> JNull"
    with el(1) have "to_string v = Inr sx" by (cases v) simp_all
    with el(5) show "\<exists>sx y color size e. to_string v = Inr sx \<and> el' = text_element sx y color size e"
      by blast
  }
  {
    fix v assume "member t ''y'' = Some v \<and> v \<noteq> JNull"
    with el(2) have "to_string v = Inr sy" by (cases v) simp_all
    with el(5) show "\<exists>sy x color size e. to_string v = Inr sy \<and> el' = text_element x sy color size e"
      by blast
  }
next
  assume f: "falsy (member t' ''text'')"
  then show "text_iteration t' = Inr None"
    by (auto simp: falsy_def text_iteration_def optional_member_def text_body_def split: option.splits)
  {
    assume "t' \<noteq> JNull"
    with f show "text_iteration_fs t' = Inr None"
      by (auto simp: falsy_def text_iteration_fs_def strict_member_def text_body_def split: option.splits)
  }
qed

theorem falsy_defaults_witness:
  \<open>stroke_iteration example_number stroke_width0 = Inr (Some
      ''<path d="M 0 0 L 1 1" fill="none" stroke="#ff0000" stroke-width="4" stroke-linecap="round" stroke-linejoin="round" />'') \<and>
    falsy (member stroke_width0 ''width'') \<and> falsy (member stroke_width0 ''color'') \<and>
    (\<exists>d color. ''<path d="M 0 0 L 1 1" fill="none" stroke="#ff0000" stroke-width="4" stroke-linecap="round" stroke-linejoin="round" />'' =
        path_element d color ''4'') \<and>
    text_iteration label_zero = Inr (Some
      ''<text x="0" y="20" fill="#00ff00" font-size="24" font-family="Arial, sans-serif">hi</text>'') \<and>
    falsy (member label_zero ''fontSize'') \<and> member label_zero ''x'' = Some (JNum (Fin 0)) \<and>
    member label_zero ''y'' = Some JNull \<and>
    (\<exists>x y color e. ''<text x="0" y="20" fill="#00ff00" font-size="24" font-family="Arial, sans-serif">hi</text>'' =
        text_element x y color ''24'' e) \<and>
    (\<exists>y color size e. ''<text x="0" y="20" fill="#00ff00" font-size="24" font-family="Arial, sans-serif">hi</text>'' =
        text_element ''0'' y color size e) \<and>
    (\<exists>x color size e. ''<text x="0" y="20" fill="#00ff00" font-size="24" font-family="Arial, sans-serif">hi</text>'' =
        text_element x ''20'' color size e) \<and>
    falsy (member label_text0 ''text'') \<and>
    text_iteration label_text0 = Inr None \<and> text_iteration_fs label_text0 = Inr None\<close>
proof -
  let ?p = \<open>''<path d="M 0 0 L 1 1" fill="none" stroke="#ff0000" stroke-width="4" stroke-linecap="round" stroke-linejoin="round" />''\<close>
  let ?t = \<open>''<text x="0" y="20" fill="#00ff00" font-size="24" font-family="Arial, sans-serif">hi</text>''\<close>
  have h1: "stroke_iteration example_number stroke_width0 = Inr (Some ?p)" by code_simp
  have h2: "text_iteration label_zero = Inr (Some ?t)" by code_simp
  have f1: "falsy (member stroke_width0 ''width'')" "falsy (member stroke_width0 ''color'')"
    by (simp_all add: falsy_def stroke_width0_def)
  have f2: "falsy (member label_zero ''fontSize'')" "member label_zero ''x'' = Some (JNum (Fin 0))"
    "member label_zero ''y'' = Some JNull"
    by (simp_all add: falsy_def label_zero_def)
  have f3: "falsy (member label_text0 ''text'')" "label_text0 \<noteq> JNull"
    by (simp_all add: falsy_def label_text0_def)
  note T = falsy_defaults [of example_number stroke_width0 ?p label_zero ?t label_text0]
  from T h1 f1 have c1: "\<exists>d color. ?p = path_element d color ''4''" by blast
  from T h2 f2 have c2: "\<exists>x y color e. ?t = text_element x y color ''24'' e"
    "\<exists>y color size e. ?t = text_element ''0'' y color size e"
    "\<exists>x color size e. ?t = text_element x ''20'' color size e"
    by blast+
  from T f3 have c3: "text_iteration label_text0 = Inr None" "text_iteration_fs label_text0 = Inr None"
    by blast+
  from h1 h2 f1 f2 f3 c1 c2 c3 show ?thesis by blast
qed

section \<open>Properties of the handlers\<close>

lemmas annotate_defs = annotate_def annotate_try_def select_image_def insert_image_def
  json_response_def message_def

lemmas replace_defs = replace_def replace_try_def select_image_def update_image_def
  json_response_def message_def

subsection \<open>The examples, evaluated\<close>

lemma example_db_ok: "store_ok example_db"
  by (simp add: store_ok_def example_db_def)

lemma example_annotate:
  "annotate example_env ''7'' (Some request_ABT) example_db = (example_created, example_db_annotated)"
  by (simp add: annotate_defs Let_def example_env_def example_db_def example_source_def
      example_number_def [of "''7''"] request_ABT_svg raw_url_def API_def digits.simps
      example_created_def example_db_annotated_def)

lemma example_created_status: "status example_created = 201"
  by (simp add: example_created_def json_response_def)

lemma example_insert_rejected:
  "annotate (example_env\<lparr>insert_rejects := True\<rparr>) ''7'' (Some request_ABT) example_db =
     (json_response 500 (message ''Failed to annotate image''), example_db)"
  by (simp add: annotate_defs Let_def example_env_def example_db_def example_source_def
      example_number_def [of "''7''"] request_ABT_svg)

lemma example_render_throws:
  "annotate example_env ''7'' (Some request_bad_points) example_db =
     (json_response 500 (message ''Failed to annotate image''), example_db)"
  by (simp add: annotate_defs Let_def example_env_def example_db_def example_source_def
      example_number_def [of "''7''"] render_svg_def body_or_empty_def request_bad_points_def
      stroke_iteration_def optional_member_def stroke_body_def)

lemma example_replace:
  "replace example_env ''7'' (Some example_file) example_db = (example_updated, example_db_replaced)"
  by (simp add: replace_defs Let_def example_env_def example_db_def example_source_def
      example_number_def [of "''7''"] raw_url_def API_def digits.simps example_file_def
      example_updated_def example_db_replaced_def name_or_edited_def)

lemma example_updated_status: "status example_updated = 200"
  by (simp add: example_updated_def)




subsection \<open>The canvas\<close>






subsection \<open>The answers of Annotate\<close>

text \<open>
  C9: an id that \<^verbatim>\<open>Number\<close> does not read as a finite number is answered 400 with the
  store untouched, whatever the store holds and whether or not it would accept a
  statement; an id that is read but names no record is answered 404 with the message
  \<^verbatim>\<open>Image not found\<close>; and an answer 201 carries the new id, the url of its bytes and
  the id of the source.
\<close>

theorem annotate_responses:
  "(\<not> isFinite (string_to_number env id_param) \<longrightarrow>
      annotate env id_param req_body db = (json_response 400 (message ''Invalid image id''), db)) \<and>
   (string_to_number env id_param = Fin n \<and> \<not> select_rejects env \<and> images db n = None \<longrightarrow>
      annotate env id_param req_body db = (json_response 404 (message ''Image not found''), db)) \<and>
   (status (fst (annotate env id_param req_body db)) = 201 \<longrightarrow>
      (\<exists>newId. fst (annotate env id_param req_body db) =
         json_response 201
           (JObj [(''id'', JNum (Fin newId)),
                  (''url'', JStr (''/api/images/'' @ number_to_string (Fin newId) @ ''/raw'')),
                  (''originalImageId'', JNum (string_to_number env id_param))]) \<and>
         images (snd (annotate env id_param req_body db)) newId \<noteq> None))"
  by (auto simp: annotate_defs raw_url_def API_def Let_def
      split: sum.splits option.splits prod.splits if_splits)

theorem annotate_responses_witness:
  "\<not> isFinite (string_to_number example_env ''abc'') \<and>
   annotate example_env ''abc'' (Some request_ABT) example_db =
     (json_response 400 (message ''Invalid image id''), example_db) \<and>
   string_to_number example_env ''9999'' = Fin 9999 \<and> \<not> select_rejects example_env \<and>
   images example_db 9999 = None \<and>
   annotate example_env ''9999'' (Some request_ABT) example_db =
     (json_response 404 (message ''Image not found''), example_db) \<and>
   status (fst (annotate example_env ''7'' (Some request_ABT) example_db)) = 201 \<and>
   (\<exists>newId. fst (annotate example_env ''7'' (Some request_ABT) example_db) =
      json_response 201
        (JObj [(''id'', JNum (Fin newId)),
               (''url'', JStr (''/api/images/'' @ number_to_string (Fin newId) @ ''/raw'')),
               (''originalImageId'', JNum (string_to_number example_env ''7''))]) \<and>
      images (snd (annotate example_env ''7'' (Some request_ABT) example_db)) newId \<noteq> None)"
proof -
  have a: "\<not> isFinite (string_to_number example_env ''abc'')"
    by (simp add: example_env_def example_number_def)
  have b: "string_to_number example_env ''9999'' = Fin 9999" "\<not> select_rejects example_env"
    "images example_db 9999 = None"
    by (simp_all add: example_env_def example_number_def example_db_def)
  have c: "status (fst (annotate example_env ''7'' (Some request_ABT) example_db)) = 201"
    by (simp add: example_annotate example_created_status)
  from annotate_responses [of example_env "''abc''" "Some request_ABT" example_db] a
  have a': "annotate example_env ''abc'' (Some request_ABT) example_db =
     (json_response 400 (message ''Invalid image id''), example_db)"
    by blast
  from annotate_responses [of example_env "''9999''" "Some request_ABT" example_db 9999] b
  have b': "annotate example_env ''9999'' (Some request_ABT) example_db =
     (json_response 404 (message ''Image not found''), example_db)"
    by blast
  from annotate_responses [of example_env "''7''" "Some request_ABT" example_db] c
  have c': "\<exists>newId. fst (annotate example_env ''7'' (Some request_ABT) example_db) =
      json_response 201
        (JObj [(''id'', JNum (Fin newId)),
               (''url'', JStr (''/api/images/'' @ number_to_string (Fin newId) @ ''/raw'')),
               (''originalImageId'', JNum (string_to_number example_env ''7''))]) \<and>
      images (snd (annotate example_env ''7'' (Some request_ABT) example_db)) newId \<noteq> None"
    by blast
  from a a' b b' c c' show ?thesis by blast
qed

subsection \<open>The record Annotate creates\<close>

text \<open>
  C3: a successful Annotate answers an id that is not the id of the source, and that
  no record had; the store then holds, under that id, a record whose parent is the
  source, whose name is the name of the source (or null), whose content type is
  \<^verbatim>\<open>image/png\<close> and whose bytes are the composite of the source and the overlay; the
  record of the source is as it was.
\<close>

theorem annotate_creates_derived_record:
  assumes "store_ok db" "annotate env id_param req_body db = (res, db')" "status res = 201"
  shows "\<exists>n source newId row meta svg.
     string_to_number env id_param = Fin n \<and> images db n = Some source \<and>
     body res = JObj [(''id'', JNum (Fin newId)), (''url'', JStr (raw_url (Fin newId))),
                      (''originalImageId'', JNum (Fin n))] \<and>
     newId \<noteq> n \<and> images db newId = None \<and>
     images db' = (images db)(newId \<mapsto> row) \<and>
     original_image_id row = Some n \<and>
     original_name row = name_or_null (original_name source) \<and>
     (original_name row = original_name source \<or> original_name row = None) \<and>
     content_type row = ''image/png'' \<and>
     sharp_metadata env (data source) = Inr meta \<and>
     render_svg (string_to_number env) (dimension_or (width meta) 1024)
       (dimension_or (height meta) 768) req_body = Inr svg \<and>
     sharp_composite_png env (data source) (concat svg) = Inr (data row) \<and>
     images db' n = Some source \<and> store_ok db'"
proof -
  from assms(2,3) obtain n source meta svg png where
    a: "string_to_number env id_param = Fin n" "\<not> select_rejects env" "images db n = Some source"
       "sharp_metadata env (data source) = Inr meta"
       "render_svg (string_to_number env) (dimension_or (width meta) 1024)
          (dimension_or (height meta) 768) req_body = Inr svg"
       "sharp_composite_png env (data source) (concat svg) = Inr png"
       "\<not> insert_rejects env"
    by (auto simp: annotate_defs Let_def
      split: sum.splits option.splits prod.splits if_splits number.splits)
  let ?newId = "auto_increment db"
  let ?row = "\<lparr>content_type = ''image/png'', original_name = name_or_null (original_name source),
               data = png, original_image_id = Some n\<rparr>"
  from a have run: "annotate env id_param req_body db =
      (json_response 201 (JObj [(''id'', JNum (Fin ?newId)), (''url'', JStr (raw_url (Fin ?newId))),
                                (''originalImageId'', JNum (Fin n))]),
       db\<lparr>images := (images db)(?newId \<mapsto> ?row), auto_increment := ?newId + 1\<rparr>)"
    by (simp add: annotate_defs Let_def)
  with assms(2) have res: "res = json_response 201 (JObj [(''id'', JNum (Fin ?newId)),
        (''url'', JStr (raw_url (Fin ?newId))), (''originalImageId'', JNum (Fin n))])"
    and db': "db' = db\<lparr>images := (images db)(?newId \<mapsto> ?row), auto_increment := ?newId + 1\<rparr>"
    by simp_all
  from assms(1) a(3) have below: "n < ?newId" by (auto simp: store_ok_def)
  from assms(1) have fresh: "images db ?newId = None"
    by (auto simp: store_ok_def)
  from assms(1) have ok: "store_ok db'"
    unfolding db' store_ok_def by (auto simp: less_imp_le)
  have name: "original_name ?row = original_name source \<or> original_name ?row = None"
    by (cases "original_name source") simp_all
  from a res db' below fresh ok name show ?thesis
    by (intro exI [of _ n] exI [of _ source] exI [of _ ?newId] exI [of _ ?row]
          exI [of _ meta] exI [of _ svg]) (simp add: json_response_def)
qed

theorem annotate_creates_derived_record_witness:
  "store_ok example_db \<and>
   annotate example_env ''7'' (Some request_ABT) example_db = (example_created, example_db_annotated) \<and>
   status example_created = 201 \<and>
   (\<exists>n source newId row meta svg.
     string_to_number example_env ''7'' = Fin n \<and> images example_db n = Some source \<and>
     body example_created = JObj [(''id'', JNum (Fin newId)), (''url'', JStr (raw_url (Fin newId))),
                      (''originalImageId'', JNum (Fin n))] \<and>
     newId \<noteq> n \<and> images example_db newId = None \<and>
     images example_db_annotated = (images example_db)(newId \<mapsto> row) \<and>
     original_image_id row = Some n \<and>
     original_name row = name_or_null (original_name source) \<and>
     (original_name row = original_name source \<or> original_name row = None) \<and>
     content_type row = ''image/png'' \<and>
     sharp_metadata example_env (data source) = Inr meta \<and>
     render_svg (string_to_number example_env) (dimension_or (width meta) 1024)
       (dimension_or (height meta) 768) (Some request_ABT) = Inr svg \<and>
     sharp_composite_png example_env (data source) (concat svg) = Inr (data row) \<and>
     images example_db_annotated n = Some source \<and> store_ok example_db_annotated) \<and>
   images example_db_annotated 8 =
     Some \<lparr>content_type = ''image/png'', original_name = Some ''scan.png'',
           data = [1, 2, 3, 4], original_image_id = Some 7\<rparr> \<and>
   images example_db_annotated 7 = images example_db 7"
proof -
  note T = annotate_creates_derived_record [OF example_db_ok example_annotate example_created_status]
  have "images example_db_annotated 8 =
     Some \<lparr>content_type = ''image/png'', original_name = Some ''scan.png'',
           data = [1, 2, 3, 4], original_image_id = Some 7\<rparr>"
    "images example_db_annotated 7 = images example_db 7"
    by (simp_all add: example_db_annotated_def)
  with T example_db_ok example_annotate example_created_status show ?thesis by blast
qed

subsection \<open>A failed Annotate\<close>

text \<open>
  C4: an Annotate that does not answer 201 leaves the store exactly as it was and
  answers one error, a message under the status 400, 404 or 500; 404 is the answer
  for a source that is not found and for nothing else. Each step that fails ends the
  operation so: a rejected lookup, metadata that cannot be decoded, an overlay whose
  rendering throws, a composite or encoding that fails, a rejected insert.
\<close>

theorem annotate_failure_atomic:
  assumes "annotate env id_param req_body db = (res, db')"
  shows "(status res \<noteq> 201 \<longrightarrow>
            db' = db \<and> (status res = 400 \<or> status res = 404 \<or> status res = 500) \<and>
            (\<exists>m. res = json_response (status res) (message m))) \<and>
         (status res = 404 \<longrightarrow> (\<exists>n. string_to_number env id_param = Fin n \<and> images db n = None)) \<and>
         (isFinite (string_to_number env id_param) \<and> select_rejects env \<longrightarrow> status res = 500) \<and>
         (string_to_number env id_param = Fin n \<and> \<not> select_rejects env \<and>
            images db n = Some source \<longrightarrow>
              ((\<exists>e. sharp_metadata env (data source) = Inl e) \<longrightarrow> status res = 500) \<and>
              (sharp_metadata env (data source) = Inr meta \<longrightarrow>
                 ((\<exists>e. render_svg (string_to_number env) (dimension_or (width meta) 1024)
                        (dimension_or (height meta) 768) req_body = Inl e) \<longrightarrow> status res = 500) \<and>
                 (render_svg (string_to_number env) (dimension_or (width meta) 1024)
                        (dimension_or (height meta) 768) req_body = Inr svg \<longrightarrow>
                    ((\<exists>e. sharp_composite_png env (data source) (concat svg) = Inl e) \<longrightarrow>
                        status res = 500) \<and>
                    ((\<exists>png. sharp_composite_png env (data source) (concat svg) = Inr png) \<and>
                        insert_rejects env \<longrightarrow> status res = 500))))"
proof (intro conjI)
  show "status res \<noteq> 201 \<longrightarrow>
            db' = db \<and> (status res = 400 \<or> status res = 404 \<or> status res = 500) \<and>
            (\<exists>m. res = json_response (status res) (message m))"
    using assms
    by (auto simp: annotate_defs Let_def
        split: sum.splits option.splits prod.splits if_splits)
  show "status res = 404 \<longrightarrow> (\<exists>n. string_to_number env id_param = Fin n \<and> images db n = None)"
    using assms
    by (auto simp: annotate_defs Let_def
        split: sum.splits option.splits prod.splits if_splits number.splits)
  show "isFinite (string_to_number env id_param) \<and> select_rejects env \<longrightarrow> status res = 500"
    using assms by (auto simp: annotate_defs Let_def)
  show "string_to_number env id_param = Fin n \<and> \<not> select_rejects env \<and>
            images db n = Some source \<longrightarrow>
              ((\<exists>e. sharp_metadata env (data source) = Inl e) \<longrightarrow> status res = 500) \<and>
              (sharp_metadata env (data source) = Inr meta \<longrightarrow>
                 ((\<exists>e. render_svg (string_to_number env) (dimension_or (width meta) 1024)
                        (dimension_or (height meta) 768) req_body = Inl e) \<longrightarrow> status res = 500) \<and>
                 (render_svg (string_to_number env) (dimension_or (width meta) 1024)
                        (dimension_or (height meta) 768) req_body = Inr svg \<longrightarrow>
                    ((\<exists>e. sharp_composite_png env (data source) (concat svg) = Inl e) \<longrightarrow>
                        status res = 500) \<and>
                    ((\<exists>png. sharp_composite_png env (data source) (concat svg) = Inr png) \<and>
                        insert_rejects env \<longrightarrow> status res = 500)))"
    using assms by (auto simp: annotate_defs Let_def)
qed

theorem annotate_failure_atomic_witness:
  "annotate (example_env\<lparr>insert_rejects := True\<rparr>) ''7'' (Some request_ABT) example_db =
     (json_response 500 (message ''Failed to annotate image''), example_db) \<and>
   status (json_response 500 (message ''Failed to annotate image'')) \<noteq> 201 \<and>
   (status (json_response 500 (message ''Failed to annotate image'')) = 400 \<or>
    status (json_response 500 (message ''Failed to annotate image'')) = 404 \<or>
    status (json_response 500 (message ''Failed to annotate image'')) = 500) \<and>
   (\<exists>m. json_response 500 (message ''Failed to annotate image'') =
      json_response (status (json_response 500 (message ''Failed to annotate image''))) (message m)) \<and>
   insert_rejects (example_env\<lparr>insert_rejects := True\<rparr>) \<and>
   images example_db 7 = Some example_source \<and>
   status (json_response 500 (message ''Failed to annotate image'')) = 500 \<and>
   annotate example_env ''7'' (Some request_bad_points) example_db =
     (json_response 500 (message ''Failed to annotate image''), example_db)"
proof -
  note T = annotate_failure_atomic [OF example_insert_rejected]
    annotate_failure_atomic [OF example_render_throws]
  have "status (json_response 500 (message ''Failed to annotate image'')) \<noteq> 201"
    "status (json_response 500 (message ''Failed to annotate image'')) = 500"
    "insert_rejects (example_env\<lparr>insert_rejects := True\<rparr>)"
    "images example_db 7 = Some example_source"
    by (simp_all add: json_response_def example_db_def)
  with T example_insert_rejected example_render_throws show ?thesis by blast
qed

subsection \<open>Replace\<close>

text \<open>
  C5: Replace changes neither the ids in use nor the parent of any record; when it
  succeeds it writes the bytes, the content type and the name of the one record it
  names, and nothing else. Replacing again with the same bytes answers the same id
  and url and leaves the same bytes stored; with the same file it leaves the store as
  the first Replace left it.
\<close>

theorem replace_idempotent:
  assumes "replace env id_param req_file db = (res, db')"
  shows "(\<forall>i. map_option original_image_id (images db' i) = map_option original_image_id (images db i)) \<and>
         auto_increment db' = auto_increment db \<and>
         (status res \<noteq> 200 \<longrightarrow> db' = db) \<and>
         (status res = 200 \<longrightarrow>
            (\<exists>n row f png.
               req_file = Some f \<and> string_to_number env id_param = Fin n \<and>
               images db n = Some row \<and> sharp_png env (buffer f) = Inr png \<and>
               images db' = (images db)(n \<mapsto> row\<lparr>content_type := ''image/png'', data := png,
                                   original_name := Some (name_or_edited (originalname f))\<rparr>) \<and>
               body res = JObj [(''id'', JNum (Fin n)), (''url'', JStr (raw_url (Fin n))),
                                (''updated'', JBool True)] \<and>
               (\<forall>f'. buffer f' = buffer f \<longrightarrow>
                  (\<exists>res2 db2 row2.
                     replace env id_param (Some f') db' = (res2, db2) \<and>
                     status res2 = 200 \<and> body res2 = body res \<and>
                     images db2 n = Some row2 \<and> data row2 = png \<and>
                     original_image_id row2 = original_image_id row \<and>
                     (\<forall>i. i \<noteq> n \<longrightarrow> images db2 i = images db' i) \<and>
                     (originalname f' = originalname f \<longrightarrow> db2 = db')))))"
proof (intro conjI)
  show "\<forall>i. map_option original_image_id (images db' i) = map_option original_image_id (images db i)"
    using assms
    by (auto simp: replace_defs Let_def
        split: sum.splits option.splits prod.splits if_splits number.splits)
  show "auto_increment db' = auto_increment db"
    using assms
    by (auto simp: replace_defs Let_def
        split: sum.splits option.splits prod.splits if_splits number.splits)
  show "status res \<noteq> 200 \<longrightarrow> db' = db"
    using assms
    by (auto simp: replace_defs Let_def
        split: sum.splits option.splits prod.splits if_splits number.splits)
  show "status res = 200 \<longrightarrow>
            (\<exists>n row f png.
               req_file = Some f \<and> string_to_number env id_param = Fin n \<and>
               images db n = Some row \<and> sharp_png env (buffer f) = Inr png \<and>
               images db' = (images db)(n \<mapsto> row\<lparr>content_type := ''image/png'', data := png,
                                   original_name := Some (name_or_edited (originalname f))\<rparr>) \<and>
               body res = JObj [(''id'', JNum (Fin n)), (''url'', JStr (raw_url (Fin n))),
                                (''updated'', JBool True)] \<and>
               (\<forall>f'. buffer f' = buffer f \<longrightarrow>
                  (\<exists>res2 db2 row2.
                     replace env id_param (Some f') db' = (res2, db2) \<and>
                     status res2 = 200 \<and> body res2 = body res \<and>
                     images db2 n = Some row2 \<and> data row2 = png \<and>
                     original_image_id row2 = original_image_id row \<and>
                     (\<forall>i. i \<noteq> n \<longrightarrow> images db2 i = images db' i) \<and>
                     (originalname f' = originalname f \<longrightarrow> db2 = db'))))"
  proof
    assume ok: "status res = 200"
    with assms obtain n row f png where
      a: "req_file = Some f" "string_to_number env id_param = Fin n" "\<not> select_rejects env"
         "images db n = Some row" "sharp_png env (buffer f) = Inr png" "\<not> update_rejects env"
      by (auto simp: replace_defs Let_def
          split: sum.splits option.splits prod.splits if_splits number.splits)
    let ?row' = "\<lambda>f. row\<lparr>content_type := ''image/png'', data := png,
                        original_name := Some (name_or_edited (originalname f))\<rparr>"
    let ?body = "JObj [(''id'', JNum (Fin n)), (''url'', JStr (raw_url (Fin n))), (''updated'', JBool True)]"
    from a have run: "replace env id_param req_file db =
        (\<lparr>status = 200, headers = [(''Cache-Control'', ''no-store'')], body = ?body\<rparr>,
         db\<lparr>images := (images db)(n \<mapsto> ?row' f)\<rparr>)"
      by (simp add: replace_defs Let_def)
    with assms have res: "body res = ?body" and db': "db' = db\<lparr>images := (images db)(n \<mapsto> ?row' f)\<rparr>"
      by auto
    have again: "\<exists>res2 db2 row2.
                     replace env id_param (Some f') db' = (res2, db2) \<and>
                     status res2 = 200 \<and> body res2 = body res \<and>
                     images db2 n = Some row2 \<and> data row2 = png \<and>
                     original_image_id row2 = original_image_id row \<and>
                     (\<forall>i. i \<noteq> n \<longrightarrow> images db2 i = images db' i) \<and>
                     (originalname f' = originalname f \<longrightarrow> db2 = db')"
      if same: "buffer f' = buffer f" for f'
    proof -
      from a same have run2: "replace env id_param (Some f') db' =
        (\<lparr>status = 200, headers = [(''Cache-Control'', ''no-store'')], body = ?body\<rparr>,
         db'\<lparr>images := (images db')(n \<mapsto> ?row' f')\<rparr>)"
        unfolding db' by (simp add: replace_defs Let_def)
      have "db'\<lparr>images := (images db')(n \<mapsto> ?row' f')\<rparr> = db'" if "originalname f' = originalname f"
        using that unfolding db' by simp
      with run2 res show ?thesis
        by (intro exI [of _ "\<lparr>status = 200, headers = [(''Cache-Control'', ''no-store'')], body = ?body\<rparr>"]
              exI [of _ "db'\<lparr>images := (images db')(n \<mapsto> ?row' f')\<rparr>"]
              exI [of _ "?row' f'"]) simp
    qed
    from a res db' again show "\<exists>n row f png.
               req_file = Some f \<and> string_to_number env id_param = Fin n \<and>
               images db n = Some row \<and> sharp_png env (buffer f) = Inr png \<and>
               images db' = (images db)(n \<mapsto> row\<lparr>content_type := ''image/png'', data := png,
                                   original_name := Some (name_or_edited (originalname f))\<rparr>) \<and>
               body res = JObj [(''id'', JNum (Fin n)), (''url'', JStr (raw_url (Fin n))),
                                (''updated'', JBool True)] \<and>
               (\<forall>f'. buffer f' = buffer f \<longrightarrow>
                  (\<exists>res2 db2 row2.
                     replace env id_param (Some f') db' = (res2, db2) \<and>
                     status res2 = 200 \<and> body res2 = body res \<and>
                     images db2 n = Some row2 \<and> data row2 = png \<and>
                     original_image_id row2 = original_image_id row \<and>
                     (\<forall>i. i \<noteq> n \<longrightarrow> images db2 i = images db' i) \<and>
                     (originalname f' = originalname f \<longrightarrow> db2 = db')))"
      by (intro exI [of _ n] exI [of _ row] exI [of _ f] exI [of _ png]) simp
  qed
qed

theorem replace_idempotent_witness:
  "replace example_env ''7'' (Some example_file) example_db = (example_updated, example_db_replaced) \<and>
   status example_updated = 200 \<and>
   (\<forall>i. map_option original_image_id (images example_db_replaced i) =
        map_option original_image_id (images example_db i)) \<and>
   (\<exists>n row f png.
      Some example_file = Some f \<and> string_to_number example_env ''7'' = Fin n \<and>
      images example_db n = Some row \<and> sharp_png example_env (buffer f) = Inr png \<and>
      images example_db_replaced =
        (images example_db)(n \<mapsto> row\<lparr>content_type := ''image/png'', data := png,
                                   original_name := Some (name_or_edited (originalname f))\<rparr>) \<and>
      body example_updated = JObj [(''id'', JNum (Fin n)), (''url'', JStr (raw_url (Fin n))),
                                   (''updated'', JBool True)] \<and>
      (\<exists>res2 db2 row2.
         replace example_env ''7'' (Some example_file) example_db_replaced = (res2, db2) \<and>
         status res2 = 200 \<and> body res2 = body example_updated \<and>
         images db2 n = Some row2 \<and> data row2 = png \<and>
         original_image_id row2 = original_image_id row \<and>
         db2 = example_db_replaced)) \<and>
   replace example_env ''7'' (Some example_file) example_db_replaced =
     (example_updated, example_db_replaced)"
proof -
  from replace_idempotent [OF example_replace] example_updated_status
  obtain n row f png where
    a: "Some example_file = Some f" "string_to_number example_env ''7'' = Fin n"
      "images example_db n = Some row" "sharp_png example_env (buffer f) = Inr png"
      "images example_db_replaced =
        (images example_db)(n \<mapsto> row\<lparr>content_type := ''image/png'', data := png,
                                   original_name := Some (name_or_edited (originalname f))\<rparr>)"
      "body example_updated = JObj [(''id'', JNum (Fin n)), (''url'', JStr (raw_url (Fin n))),
                                   (''updated'', JBool True)]" and
    b: "\<forall>f'. buffer f' = buffer f \<longrightarrow>
          (\<exists>res2 db2 row2.
             replace example_env ''7'' (Some f') example_db_replaced = (res2, db2) \<and>
             status res2 = 200 \<and> body res2 = body example_updated \<and>
             images db2 n = Some row2 \<and> data row2 = png \<and>
             original_image_id row2 = original_image_id row \<and>
             (\<forall>i. i \<noteq> n \<longrightarrow> images db2 i = images example_db_replaced i) \<and>
             (originalname f' = originalname f \<longrightarrow> db2 = example_db_replaced))"
    by blast
  from a(1) have f: "f = example_file" by simp
  from b f have c: "\<exists>res2 db2 row2.
         replace example_env ''7'' (Some example_file) example_db_replaced = (res2, db2) \<and>
         status res2 = 200 \<and> body res2 = body example_updated \<and>
         images db2 n = Some row2 \<and> data row2 = png \<and>
         original_image_id row2 = original_image_id row \<and>
         db2 = example_db_replaced"
    by blast
  have d: "replace example_env ''7'' (Some example_file) example_db_replaced =
     (example_updated, example_db_replaced)"
    by (simp add: replace_defs Let_def example_env_def example_db_def example_source_def
      example_number_def [of "''7''"] raw_url_def API_def digits.simps example_file_def
      example_updated_def example_db_replaced_def name_or_edited_def)
  from replace_idempotent [OF example_replace]
  have e: "\<forall>i. map_option original_image_id (images example_db_replaced i) =
        map_option original_image_id (images example_db i)"
    by blast
  from a c d e example_replace example_updated_status show ?thesis by blast
qed

end
